theory Spec2Isabelle
  imports Complex_Main "HOL-Library.Sublist" "HOL-Library.Multiset" "HOL-Library.AList"
begin

section \<open>Python values and exceptions used by llms.py\<close>

text \<open>
  Strings are lists of code points below 256 (\<^typ>\<open>char\<close>); Python's \<open>str\<close> holds any
  Unicode code point, so the model covers the Latin-1 part of it. Floats (costs and
  latencies) are modelled as exact reals: rounding of the floating-point operations is
  not part of the model. Every \<open>raise\<close> of the source, and every exception the
  interpreter raises for it, is a value of \<open>py_error\<close>.
\<close>

datatype py_error =
    ValueError "string list"
  | InvalidLiteral string
  | NotImplementedError string
  | IndexError
  | NameError string
  | AttributeError string
  | ZeroDivisionError
  | StatisticsError
  | AdapterError string

text \<open>
  \<open>ValueError args\<close> is a \<open>ValueError\<close> raised by llms.py with the given arguments;
  \<open>InvalidLiteral s\<close> is the \<open>ValueError\<close> that \<open>int(s)\<close> raises when it refuses \<open>s\<close>;
  \<open>AttributeError name\<close> is raised for an attribute that an object does not have;
  \<open>AdapterError\<close> stands for whatever a provider adapter raises.
\<close>

section \<open>Result: the envelope over one or many results (llms.py, lines 13-33)\<close>

text \<open>
  Each element of \<open>_results\<close> is a dict with the keys \<open>text\<close>, \<open>meta\<close> and \<open>provider\<close>.
\<close>

record ('m, 'p) completion_result =
  r_text :: string
  r_meta :: 'm
  r_provider :: 'p

text \<open>
  A property of \<open>Result\<close> returns either one value or a list of values; the two shapes
  are the constructors of \<open>collapsed\<close>.
\<close>

datatype 'a collapsed = Scalar 'a | Sequence "'a list"

fun is_scalar :: "'a collapsed \<Rightarrow> bool" where
  "is_scalar (Scalar x) = True"
| "is_scalar (Sequence xs) = False"

definition Result_text :: "('m, 'p) completion_result list \<Rightarrow> string collapsed" where
  "Result_text results =
     (if length results = 1 then Scalar (r_text (results ! 0))
      else Sequence (map (\<lambda>result. r_text result) results))"

text \<open>\<open>markdown\<close> stands for \<open>markdown2.markdown\<close>, an external renderer.\<close>

definition Result_html ::
  "(string \<Rightarrow> 'h) \<Rightarrow> ('m, 'p) completion_result list \<Rightarrow> 'h collapsed" where
  "Result_html markdown results =
     (if length results = 1 then Scalar (markdown (r_text (results ! 0)))
      else Sequence (map (\<lambda>result. markdown (r_text result)) results))"

definition Result_meta :: "('m, 'p) completion_result list \<Rightarrow> 'm collapsed" where
  "Result_meta results =
     (if length results = 1 then Scalar (r_meta (results ! 0))
      else Sequence (map (\<lambda>result. r_meta result) results))"

section \<open>Python string and list primitives\<close>

text \<open>
  \<open>str.isspace\<close> on the code points below 256: tab, line feed, vertical tab, form feed,
  carriage return, the four separators 28 to 31, space, NEL (133) and the no-break
  space (160).
\<close>

definition py_isspace :: "char \<Rightarrow> bool" where
  "py_isspace c =
     (let n = (of_char c :: nat)
      in (9 \<le> n \<and> n \<le> 13) \<or> (28 \<le> n \<and> n \<le> 32) \<or> n = 133 \<or> n = 160)"

text \<open>\<open>s.strip()\<close>: leading and trailing whitespace removed.\<close>

definition py_strip :: "string \<Rightarrow> string" where
  "py_strip s = rev (dropWhile py_isspace (rev (dropWhile py_isspace s)))"

text \<open>
  \<open>s.split(sep)\<close> for a one-character separator: the pieces between the occurrences of
  \<open>sep\<close>, empty pieces included; the result is never empty.
\<close>

fun py_split :: "char \<Rightarrow> string \<Rightarrow> string list" where
  "py_split sep [] = [[]]"
| "py_split sep (c # cs) =
     (if c = sep then [] # py_split sep cs
      else (case py_split sep cs of
              [] \<Rightarrow> [[c]]
            | piece # pieces \<Rightarrow> (c # piece) # pieces))"

text \<open>
  \<open>int(s)\<close> in base 10: surrounding whitespace is ignored, then an optional sign, then
  decimal digits in which single underscores may separate digits. Below code point 256
  the only decimal digits are \<open>0\<close> to \<open>9\<close>. \<open>py_digits prev acc s\<close> reads the digit part;
  \<open>prev\<close> says that the character before was a digit. Since Python 3.11 a literal of
  more than \<open>int_max_str_digits\<close> digits is refused with a \<open>ValueError\<close> too.
\<close>

definition int_max_str_digits :: nat where
  "int_max_str_digits = 4300"

definition py_isdigit :: "char \<Rightarrow> bool" where
  "py_isdigit c = (let n = (of_char c :: nat) in 48 \<le> n \<and> n \<le> 57)"

definition digit_value :: "char \<Rightarrow> int" where
  "digit_value c = int (of_char c) - 48"

fun py_digits :: "bool \<Rightarrow> int \<Rightarrow> string \<Rightarrow> int option" where
  "py_digits prev acc [] = (if prev then Some acc else None)"
| "py_digits prev acc (c # cs) =
     (if py_isdigit c then py_digits True (10 * acc + digit_value c) cs
      else if c = CHR ''_'' \<and> prev then py_digits False acc cs
      else None)"

definition py_int :: "string \<Rightarrow> py_error + int" where
  "py_int s =
     (let t = py_strip s;
          parsed = (case t of
                      [] \<Rightarrow> None
                    | c # cs \<Rightarrow>
                        if c = CHR ''+'' then py_digits False 0 cs
                        else if c = CHR ''-'' then map_option uminus (py_digits False 0 cs)
                        else py_digits False 0 t)
      in case parsed of
           None \<Rightarrow> Inl (InvalidLiteral s)
         | Some n \<Rightarrow>
             if int_max_str_digits < length (filter py_isdigit t) then Inl (InvalidLiteral s)
             else Inr n)"

text \<open>
  \<open>s.lower()\<close> on the code points below 256: \<open>A\<close> to \<open>Z\<close> and the capital letters 192 to
  222 (the multiplication sign 215 apart) move up by 32.
\<close>

definition lower_char :: "char \<Rightarrow> char" where
  "lower_char c =
     (let n = (of_char c :: nat)
      in if (65 \<le> n \<and> n \<le> 90) \<or> (192 \<le> n \<and> n \<le> 222 \<and> n \<noteq> 215)
         then char_of (n + 32) else c)"

definition py_lower :: "string \<Rightarrow> string" where
  "py_lower s = map lower_char s"

text \<open>\<open>q in s\<close> for strings: \<open>q\<close> occurs in \<open>s\<close> as a contiguous piece.\<close>

fun py_in :: "string \<Rightarrow> string \<Rightarrow> bool" where
  "py_in q [] = (q = [])"
| "py_in q (c # cs) = (prefix q (c # cs) \<or> py_in q cs)"

text \<open>
  \<open>sorted(xs, key=k)\<close> is a stable ascending sort; \<open>sorted(xs, key=k, reverse=True)\<close>
  sorts descending and keeps elements with equal keys in their original order.
\<close>

definition py_sorted :: "('a \<Rightarrow> 'k::linorder) \<Rightarrow> 'a list \<Rightarrow> 'a list" where
  "py_sorted k xs = sort_key k xs"

definition py_sorted_reverse :: "('a \<Rightarrow> 'k::linorder) \<Rightarrow> 'a list \<Rightarrow> 'a list" where
  "py_sorted_reverse k xs = rev (sort_key k (rev xs))"

text \<open>\<open>a / b\<close> on numbers raises \<open>ZeroDivisionError\<close> when \<open>b\<close> is zero.\<close>

definition py_truediv :: "real \<Rightarrow> real \<Rightarrow> py_error + real" where
  "py_truediv a b = (if b = 0 then Inl ZeroDivisionError else Inr (a / b))"

section \<open>Provider adapters (llms/providers)\<close>

text \<open>
  The three adapter classes that llms.py imports. Each carries a static table
  \<open>MODEL_INFO\<close> from model name to prices and limits; a table is kept as an association
  list in the order of the dict literal. The keys \<open>prompt\<close> and \<open>completion\<close> of an
  entry are the fields \<open>cost_prompt\<close> and \<open>cost_completion\<close>; keys that an entry leaves
  out are \<open>None\<close>.
\<close>

datatype family = OpenAI | Anthropic | AI21

record model_info =
  cost_prompt :: real
  cost_completion :: real
  token_limit :: nat
  is_chat :: bool
  output_limit :: "nat option"
  use_max_completion_tokens :: "bool option"

type_synonym model_table = "(string \<times> model_info) list"

definition OpenAIProvider_MODEL_INFO :: model_table where
  "OpenAIProvider_MODEL_INFO =
    [(''gpt-3.5-turbo'',
        \<lparr>cost_prompt = 2, cost_completion = 2, token_limit = 16385, is_chat = True,
         output_limit = Some 4096, use_max_completion_tokens = None\<rparr>),
     (''gpt-3.5-turbo-instruct'',
        \<lparr>cost_prompt = 2, cost_completion = 2, token_limit = 4096, is_chat = False,
         output_limit = None, use_max_completion_tokens = None\<rparr>),
     (''gpt-4'',
        \<lparr>cost_prompt = 30, cost_completion = 60, token_limit = 8192, is_chat = True,
         output_limit = None, use_max_completion_tokens = None\<rparr>),
     (''gpt-4-turbo'',
        \<lparr>cost_prompt = 10, cost_completion = 30, token_limit = 128000, is_chat = True,
         output_limit = Some 4096, use_max_completion_tokens = None\<rparr>),
     (''gpt-4o'',
        \<lparr>cost_prompt = 5 / 2, cost_completion = 10, token_limit = 128000, is_chat = True,
         output_limit = Some 4096, use_max_completion_tokens = None\<rparr>),
     (''gpt-4o-mini'',
        \<lparr>cost_prompt = 15 / 100, cost_completion = 60 / 100, token_limit = 128000, is_chat = True,
         output_limit = Some 4096, use_max_completion_tokens = None\<rparr>),
     (''o1-preview'',
        \<lparr>cost_prompt = 15, cost_completion = 60, token_limit = 128000, is_chat = True,
         output_limit = Some 4096, use_max_completion_tokens = Some True\<rparr>),
     (''o1-mini'',
        \<lparr>cost_prompt = 3, cost_completion = 12, token_limit = 128000, is_chat = True,
         output_limit = Some 4096, use_max_completion_tokens = Some True\<rparr>),
     (''o1'',
        \<lparr>cost_prompt = 15, cost_completion = 60, token_limit = 200000, is_chat = True,
         output_limit = Some 100000, use_max_completion_tokens = Some True\<rparr>)]"

text \<open>
  The modules of \<open>AnthropicProvider\<close> and \<open>AI21Provider\<close> are not part of the sources at
  hand, so their tables are parameters of everything that reads them.
\<close>

record adapter_tables =
  AnthropicProvider_MODEL_INFO :: model_table
  AI21Provider_MODEL_INFO :: model_table

fun MODEL_INFO :: "adapter_tables \<Rightarrow> family \<Rightarrow> model_table" where
  "MODEL_INFO T OpenAI = OpenAIProvider_MODEL_INFO"
| "MODEL_INFO T Anthropic = AnthropicProvider_MODEL_INFO T"
| "MODEL_INFO T AI21 = AI21Provider_MODEL_INFO T"

text \<open>\<open>provider.__name__\<close>: the name of the adapter class.\<close>

fun class_name :: "family \<Rightarrow> string" where
  "class_name OpenAI = ''OpenAIProvider''"
| "class_name Anthropic = ''AnthropicProvider''"
| "class_name AI21 = ''AI21Provider''"

text \<open>An adapter instance: its class, and the \<open>api_key\<close> and \<open>model\<close> it was built with.\<close>

record provider =
  family :: family
  api_key :: string
  model :: string

section \<open>LLMS: construction (llms.py, lines 37-77)\<close>

text \<open>
  The \<open>model\<close> argument is \<open>None\<close>, a string or a list of strings; each key argument is
  \<open>None\<close> or a string. \<open>os.getenv\<close> reads the process environment, a partial map.
\<close>

datatype model_arg = ModelNone | ModelStr string | ModelList "string list"

record init_args =
  arg_model :: model_arg
  openai_api_key :: "string option"
  anthropic_api_key :: "string option"
  ai21_api_key :: "string option"

type_synonym environ = "string \<rightharpoonup> string"

text \<open>Lines 41-48: a key that was not passed is read from the environment.\<close>

definition resolve_key :: "environ \<Rightarrow> string option \<Rightarrow> string \<Rightarrow> string option" where
  "resolve_key env key name = (case key of None \<Rightarrow> env name | Some k \<Rightarrow> Some k)"

text \<open>Lines 50-57: the list of requested model names.\<close>

definition requested_models :: "environ \<Rightarrow> model_arg \<Rightarrow> string list" where
  "requested_models env m =
     (case m of
        ModelNone \<Rightarrow>
          (case env ''LLMS_DEFAULT_MODEL'' of
             None \<Rightarrow> [''gpt-3.5-turbo'']
           | Some d \<Rightarrow> [d])
      | ModelStr s \<Rightarrow> [s]
      | ModelList ms \<Rightarrow> ms)"

text \<open>
  Lines 59-77: the loop over the requested names; \<open>providers\<close> is \<open>self._providers\<close> so
  far. The first name that no branch accepts raises and ends the construction.
\<close>

fun append_providers ::
  "adapter_tables \<Rightarrow> string option \<Rightarrow> string option \<Rightarrow> string option \<Rightarrow>
   provider list \<Rightarrow> string list \<Rightarrow> py_error + provider list" where
  "append_providers T okey akey jkey providers [] = Inr providers"
| "append_providers T okey akey jkey providers (single_model # rest) =
     (if okey \<noteq> None \<and> single_model \<in> set (map fst OpenAIProvider_MODEL_INFO) then
        append_providers T okey akey jkey
          (providers @ [\<lparr>family = OpenAI, api_key = the okey, model = single_model\<rparr>]) rest
      else if akey \<noteq> None \<and> single_model \<in> set (map fst (AnthropicProvider_MODEL_INFO T)) then
        append_providers T okey akey jkey
          (providers @ [\<lparr>family = Anthropic, api_key = the akey, model = single_model\<rparr>]) rest
      else if jkey \<noteq> None \<and> single_model \<in> set (map fst (AI21Provider_MODEL_INFO T)) then
        append_providers T okey akey jkey
          (providers @ [\<lparr>family = AI21, api_key = the jkey, model = single_model\<rparr>]) rest
      else Inl (ValueError [''Invalid API key and model combination'', single_model]))"

definition LLMS_init :: "adapter_tables \<Rightarrow> environ \<Rightarrow> init_args \<Rightarrow> py_error + provider list" where
  "LLMS_init T env args =
     append_providers T
       (resolve_key env (openai_api_key args) ''OPENAI_API_KEY'')
       (resolve_key env (anthropic_api_key args) ''ANTHROPIC_API_KEY'')
       (resolve_key env (ai21_api_key args) ''AI21_API_KEY'')
       []
       (requested_models env (arg_model args))"

text \<open>
  The resolution as the specification words it: the backend families in their fixed
  order of priority, and for a model name the first family that has a credential and
  whose table contains the name.
\<close>

definition family_priority :: "family list" where
  "family_priority = [OpenAI, Anthropic, AI21]"

fun credential :: "environ \<Rightarrow> init_args \<Rightarrow> family \<Rightarrow> string option" where
  "credential env args OpenAI = resolve_key env (openai_api_key args) ''OPENAI_API_KEY''"
| "credential env args Anthropic = resolve_key env (anthropic_api_key args) ''ANTHROPIC_API_KEY''"
| "credential env args AI21 = resolve_key env (ai21_api_key args) ''AI21_API_KEY''"

definition spec_resolve ::
  "adapter_tables \<Rightarrow> environ \<Rightarrow> init_args \<Rightarrow> string \<Rightarrow> family option" where
  "spec_resolve T env args name =
     find (\<lambda>f. credential env args f \<noteq> None \<and> name \<in> set (map fst (MODEL_INFO T f)))
       family_priority"

definition spec_handle ::
  "adapter_tables \<Rightarrow> environ \<Rightarrow> init_args \<Rightarrow> string \<Rightarrow> provider" where
  "spec_handle T env args name =
     (let f = the (spec_resolve T env args name)
      in \<lparr>family = f, api_key = the (credential env args f), model = name\<rparr>)"

section \<open>LLMS: acomplete and complete\_stream (llms.py, lines 131-164)\<close>

text \<open>\<open>xs[i]\<close> for an index that is not negative.\<close>

definition py_getitem :: "'a list \<Rightarrow> nat \<Rightarrow> py_error + 'a" where
  "py_getitem xs i = (if i < length xs then Inr (xs ! i) else Inl IndexError)"

text \<open>
  What an adapter returns: \<open>{"text": ..., "meta": {"tokens": ..., "cost": ...,
  "latency": ...}}\<close>. \<open>format(cost, '.5f')\<close> and \<open>round(latency, 2)\<close> are floating-point
  library functions; they are the parameters \<open>format_5f\<close> and \<open>round_2\<close>.
\<close>

record ('t, 'c) meta =
  m_tokens :: 't
  m_cost :: 'c
  m_latency :: real

record 't response =
  resp_text :: string
  resp_meta :: "('t, real) meta"

definition format_meta ::
  "(real \<Rightarrow> string) \<Rightarrow> (real \<Rightarrow> real) \<Rightarrow> ('t, real) meta \<Rightarrow> ('t, string) meta" where
  "format_meta format_5f round_2 m =
     \<lparr>m_tokens = m_tokens m, m_cost = format_5f (m_cost m), m_latency = round_2 (m_latency m)\<rparr>"

text \<open>
  \<open>acomplete\<close> is a coroutine: the value below is what awaiting it gives. \<open>adapter\<close> is the
  \<open>acomplete\<close> of the adapter, called with the prompt and with the history and keyword
  options \<open>opts\<close>.
\<close>

definition LLMS_acomplete ::
  "(provider \<Rightarrow> string \<Rightarrow> 'o \<Rightarrow> py_error + 't response) \<Rightarrow> (real \<Rightarrow> string) \<Rightarrow> (real \<Rightarrow> real) \<Rightarrow>
   provider list \<Rightarrow> string \<Rightarrow> 'o \<Rightarrow>
   py_error + (('t, string) meta, provider) completion_result list" where
  "LLMS_acomplete adapter format_5f round_2 providers prompt opts =
     (if length providers > 1 then
        Inl (NotImplementedError ''acomplete not supported for multi-models yet.'')
      else
        (case py_getitem providers 0 of
           Inl e \<Rightarrow> Inl e
         | Inr provider \<Rightarrow>
             (case adapter provider prompt opts of
                Inl e \<Rightarrow> Inl e
              | Inr response \<Rightarrow>
                  Inr [\<lparr>r_text = resp_text response,
                        r_meta = format_meta format_5f round_2 (resp_meta response),
                        r_provider = provider\<rparr>])))"

text \<open>
  \<open>complete_stream\<close> is a generator: its body runs when the caller iterates. The value
  below is the outcome of iterating it to the end: the chunks it yielded and the
  exception that ended it, if any.
\<close>

record stream_outcome =
  chunks :: "string list"
  raised :: "py_error option"

definition LLMS_complete_stream ::
  "(provider \<Rightarrow> string \<Rightarrow> 'o \<Rightarrow> stream_outcome) \<Rightarrow> provider list \<Rightarrow> string \<Rightarrow> 'o \<Rightarrow>
   stream_outcome" where
  "LLMS_complete_stream adapter providers prompt opts =
     (if length providers > 1 then
        \<lparr>chunks = [],
         raised = Some (ValueError [''Streaming is possible only with a single model''])\<rparr>
      else
        (case py_getitem providers 0 of
           Inl e \<Rightarrow> \<lparr>chunks = [], raised = Some e\<rparr>
         | Inr provider \<Rightarrow>
             if family provider = AI21 then
               \<lparr>chunks = [],
                raised = Some (ValueError [''Streaming is not yet supported with AI21 models''])\<rparr>
             else adapter provider prompt opts))"

section \<open>LLMS: list (llms.py, lines 79-101)\<close>

record listing =
  l_provider :: string
  l_name :: string
  l_cost :: model_info

definition all_providers :: "family list" where
  "all_providers = [OpenAI, AI21, Anthropic]"

text \<open>The test of lines 86-90 that makes the loop skip an entry.\<close>

definition skipped :: "string option \<Rightarrow> family \<Rightarrow> string \<Rightarrow> bool" where
  "skipped query provider name =
     (case query of
        None \<Rightarrow> False
      | Some q \<Rightarrow>
          q \<noteq> [] \<and>
          (\<not> py_in (py_lower q) (py_lower name) \<and>
           \<not> py_in (py_lower q) (py_lower (class_name provider))))"

definition model_info_list :: "adapter_tables \<Rightarrow> string option \<Rightarrow> listing list" where
  "model_info_list T query =
     concat (map (\<lambda>provider.
        concat (map (\<lambda>(name, cost).
           if skipped query provider name then []
           else [\<lparr>l_provider = class_name provider, l_name = name, l_cost = cost\<rparr>])
         (MODEL_INFO T provider)))
      all_providers)"

definition LLMS_list :: "adapter_tables \<Rightarrow> string option \<Rightarrow> listing list" where
  "LLMS_list T query =
     py_sorted (\<lambda>x. cost_prompt (l_cost x) + cost_completion (l_cost x)) (model_info_list T query)"

text \<open>
  The catalogue as the specification words it: every entry of every known family's
  table, and the unit cost the listing is ordered by.
\<close>

definition spec_catalogue :: "adapter_tables \<Rightarrow> listing set" where
  "spec_catalogue T =
     {\<lparr>l_provider = class_name f, l_name = name, l_cost = cost\<rparr> | f name cost.
        (name, cost) \<in> set (MODEL_INFO T f)}"

definition unit_cost :: "listing \<Rightarrow> real" where
  "unit_cost e = cost_prompt (l_cost e) + cost_completion (l_cost e)"

text \<open>
  \<open>q\<close> is a case-insensitive substring of \<open>s\<close>: some contiguous piece of \<open>s\<close> equals \<open>q\<close> up
  to the case of its letters.
\<close>

definition spec_contains_ci :: "string \<Rightarrow> string \<Rightarrow> bool" where
  "spec_contains_ci q s = (\<exists>piece. sublist piece s \<and> py_lower piece = py_lower q)"

section \<open>LLMS: benchmark (llms.py, lines 167-309)\<close>

subsection \<open>Running the prompts (lines 230-258)\<close>

text \<open>
  One outcome of one prompt: the dict \<open>output_data\<close> with the keys \<open>text\<close>, \<open>tokens\<close>,
  \<open>latency\<close>, \<open>cost\<close> and \<open>prompt_index\<close>. \<open>complete_call\<close> is the \<open>complete\<close> method of the adapter;
  the benchmark adds up what it returns under \<open>tokens\<close>, so that value is a number.
\<close>

record output_data =
  o_text :: string
  o_tokens :: int
  o_latency :: real
  o_cost :: real
  prompt_index :: nat

definition process_prompt ::
  "('p \<Rightarrow> string \<Rightarrow> py_error + int response) \<Rightarrow> 'p \<Rightarrow> string \<Rightarrow> nat \<Rightarrow> py_error + output_data" where
  "process_prompt complete_call model' prompt index =
     (case complete_call model' prompt of
        Inl e \<Rightarrow> Inl e
      | Inr result \<Rightarrow>
          Inr \<lparr>o_text = resp_text result,
               o_tokens = m_tokens (resp_meta result),
               o_latency = m_latency (resp_meta result),
               o_cost = m_cost (resp_meta result),
               prompt_index = index\<rparr>)"

text \<open>
  \<open>as_completed(futures)\<close> yields every future once, in the order in which they finish
  (futures already finished come out in no particular order). That order is not fixed
  by the program; it is the parameter \<open>order\<close>, a permutation of the positions of the
  futures.
\<close>

definition as_completed :: "nat list \<Rightarrow> 'a list \<Rightarrow> 'a list" where
  "as_completed order futures = map (\<lambda>i. futures ! i) order"

definition valid_order :: "nat list \<Rightarrow> nat \<Rightarrow> bool" where
  "valid_order order n = (mset order = mset [0..<n])"

text \<open>
  \<open>for future in ...: results.append(future.result())\<close>: the first future that holds an
  exception raises it.
\<close>

fun future_results :: "(py_error + 'a) list \<Rightarrow> py_error + 'a list" where
  "future_results [] = Inr []"
| "future_results (future # rest) =
     (case future of
        Inl e \<Rightarrow> Inl e
      | Inr v \<Rightarrow>
          (case future_results rest of
             Inl e \<Rightarrow> Inl e
           | Inr vs \<Rightarrow> Inr (v # vs)))"

definition process_prompts_sequentially ::
  "('p \<Rightarrow> string \<Rightarrow> py_error + int response) \<Rightarrow> nat list \<Rightarrow> 'p \<Rightarrow> string list \<Rightarrow>
   py_error + ('p \<times> output_data list)" where
  "process_prompts_sequentially complete_call order model' prompts =
     (let futures = map (\<lambda>(index, prompt). process_prompt complete_call model' prompt index)
                      (enumerate 0 prompts)
      in case future_results (as_completed order futures) of
           Inl e \<Rightarrow> Inl e
         | Inr results \<Rightarrow> Inr (model', results))"

subsection \<open>Totals (lines 260-270)\<close>

text \<open>
  \<open>model_results\<close> is a dict keyed by provider; it is kept as an association list in
  insertion order, and \<open>model_results[model] = ...\<close> is \<open>AList.update\<close>. The value for a
  provider gains keys as the benchmark goes on: first \<open>outputs\<close>, \<open>total_latency\<close> and
  \<open>total_cost\<close>, then \<open>median_latency\<close> and \<open>aggregated_speed\<close>, then \<open>evaluation\<close>.
\<close>

record totals =
  outputs :: "output_data list"
  total_latency :: real
  total_cost :: real

record aggregates = totals +
  median_latency :: real
  aggregated_speed :: real

record scored = aggregates +
  evaluation :: "int list"

text \<open>Lines 268-270: the loop that adds each outcome to the two totals.\<close>

fun add_outputs :: "totals \<Rightarrow> output_data list \<Rightarrow> totals" where
  "add_outputs r [] = r"
| "add_outputs r (output_data # rest) =
     add_outputs
       (r\<lparr>total_latency := total_latency r + o_latency output_data,
          total_cost := total_cost r + o_cost output_data\<rparr>)
       rest"

definition model_totals :: "output_data list \<Rightarrow> totals" where
  "model_totals outs =
     add_outputs \<lparr>outputs = outs, total_latency = 0, total_cost = 0\<rparr> outs"

fun collect_totals ::
  "('p \<times> totals) list \<Rightarrow> (py_error + ('p \<times> output_data list)) list \<Rightarrow>
   py_error + ('p \<times> totals) list" where
  "collect_totals model_results [] = Inr model_results"
| "collect_totals model_results (future # rest) =
     (case future of
        Inl e \<Rightarrow> Inl e
      | Inr (model', outs) \<Rightarrow>
          collect_totals (AList.update model' (model_totals outs) model_results) rest)"

subsection \<open>Median and speed (lines 272-280)\<close>

text \<open>
  \<open>statistics.median\<close> of the standard library: the middle element of the sorted data,
  or the mean of the two middle elements; no data raises \<open>StatisticsError\<close>.
\<close>

definition statistics_median :: "real list \<Rightarrow> py_error + real" where
  "statistics_median xs =
     (let data = sort xs; n = length data
      in if n = 0 then Inl StatisticsError
         else if n mod 2 = 1 then Inr (data ! (n div 2))
         else Inr ((data ! (n div 2 - 1) + data ! (n div 2)) / 2))"

text \<open>\<open>sum(xs)\<close> adds from the left, starting at 0.\<close>

definition py_sum :: "int list \<Rightarrow> int" where
  "py_sum xs = foldl (+) 0 xs"

definition aggregate :: "totals \<Rightarrow> py_error + aggregates" where
  "aggregate r =
     (case statistics_median (map o_latency (outputs r)) of
        Inl e \<Rightarrow> Inl e
      | Inr median \<Rightarrow>
          (let total_tokens = py_sum (map o_tokens (outputs r));
               total_latency = total_latency r
           in case py_truediv (of_int total_tokens) total_latency of
                Inl e \<Rightarrow> Inl e
              | Inr speed \<Rightarrow>
                  Inr \<lparr>outputs = outputs r, total_latency = totals.total_latency r,
                       total_cost = total_cost r,
                       median_latency = median, aggregated_speed = speed\<rparr>))"

text \<open>
  A loop \<open>for model in model_results\<close> that changes the value of each key in turn; the
  first exception ends it.
\<close>

fun for_each_model ::
  "('a \<Rightarrow> py_error + 'b) \<Rightarrow> ('p \<times> 'a) list \<Rightarrow> py_error + ('p \<times> 'b) list" where
  "for_each_model body [] = Inr []"
| "for_each_model body ((model', r) # rest) =
     (case body r of
        Inl e \<Rightarrow> Inl e
      | Inr r' \<Rightarrow>
          (case for_each_model body rest of
             Inl e \<Rightarrow> Inl e
           | Inr rest' \<Rightarrow> Inr ((model', r') # rest')))"

subsection \<open>Evaluation (lines 193-226 and 282-296)\<close>

text \<open>\<open>str(n)\<close> for a natural number: its decimal digits.\<close>

fun py_str :: "nat \<Rightarrow> string" where
  "py_str n =
     (if n < 10 then [char_of (48 + n)]
      else py_str (n div 10) @ [char_of (48 + n mod 10)])"

declare py_str.simps [simp del]

text \<open>Lines 219-221: the combined prompt; \<open>i\<close> is the index of the first pair.\<close>

fun build_prompt :: "nat \<Rightarrow> (string \<times> string) list \<Rightarrow> string" where
  "build_prompt i [] = []"
| "build_prompt i ((query, answer) # rest) =
     (''Query #'' @ py_str (i + 1) @ '': '' @ query @ [CHR 0x0A] @
      ''Answer #'' @ py_str (i + 1) @ '': '' @ answer @ [CHR 0x0A, CHR 0x0A]) @
     build_prompt (Suc i) rest"

text \<open>Line 226: \<open>[int(score.strip()) for score in scores]\<close>.\<close>

fun parse_scores :: "string list \<Rightarrow> py_error + int list" where
  "parse_scores [] = Inr []"
| "parse_scores (score # rest) =
     (case py_int (py_strip score) of
        Inl e \<Rightarrow> Inl e
      | Inr n \<Rightarrow>
          (case parse_scores rest of
             Inl e \<Rightarrow> Inl e
           | Inr ns \<Rightarrow> Inr (n # ns)))"

text \<open>
  The name \<open>evaluator_result\<close> of line 225 is assigned neither in \<open>evaluate_answers\<close> nor in
  \<open>benchmark\<close>, so it is looked up among the globals of the module. A global is a
  string or some other object; \<open>globals\<close> is that name space. \<open>llms_globals\<close> holds the
  names that llms.py binds at module level: its imports and its two classes (the
  names with double underscores that the interpreter adds to every module are left
  out; neither they nor the built-in names include \<open>evaluator_result\<close>). An object that
  is no string stands for one without a \<open>split\<close> method. The string \<open>system\<close> of lines
  196-217 is assigned and never used, and so is \<open>prompt\<close>.
\<close>

datatype py_value = PyStr string | PyObject

type_synonym py_globals = "string \<rightharpoonup> py_value"

definition llms_globals :: py_globals where
  "llms_globals =
     map_of (map (\<lambda>name. (name, PyObject))
       [''os'', ''markdown2'', ''statistics'', ''PrettyTable'', ''OpenAIProvider'',
        ''AnthropicProvider'', ''AI21Provider'', ''concurrent'', ''ThreadPoolExecutor'',
        ''as_completed'', ''List'', ''Optional'', ''Tuple'', ''Result'', ''LLMS''])"

definition evaluate_answers ::
  "py_globals \<Rightarrow> 'e \<Rightarrow> (string \<times> string) list \<Rightarrow> py_error + int list" where
  "evaluate_answers globals evaluator query_answer_pairs =
     (let prompt = build_prompt 0 query_answer_pairs
      in case globals ''evaluator_result'' of
           None \<Rightarrow> Inl (NameError ''evaluator_result'')
         | Some PyObject \<Rightarrow> Inl (AttributeError ''split'')
         | Some (PyStr evaluator_result) \<Rightarrow>
             (let scores = py_split (CHR '','') evaluator_result
              in parse_scores scores))"

text \<open>Lines 286-290: the pairs of prompt and answer, in the order of the outputs.\<close>

fun query_answer_pairs ::
  "string list \<Rightarrow> output_data list \<Rightarrow> py_error + (string \<times> string) list" where
  "query_answer_pairs prompts [] = Inr []"
| "query_answer_pairs prompts (output_data # rest) =
     (case py_getitem prompts (prompt_index output_data) of
        Inl e \<Rightarrow> Inl e
      | Inr prompt \<Rightarrow>
          (case query_answer_pairs prompts rest of
             Inl e \<Rightarrow> Inl e
           | Inr pairs \<Rightarrow> Inr ((prompt, o_text output_data) # pairs)))"

text \<open>Lines 294-296: \<open>evaluation[i]\<close> is copied for each \<open>i\<close> in the range of the outputs.\<close>

fun copy_evaluation :: "int list \<Rightarrow> nat list \<Rightarrow> py_error + int list" where
  "copy_evaluation evaluation' [] = Inr []"
| "copy_evaluation evaluation' (i # rest) =
     (case py_getitem evaluation' i of
        Inl e \<Rightarrow> Inl e
      | Inr score \<Rightarrow>
          (case copy_evaluation evaluation' rest of
             Inl e \<Rightarrow> Inl e
           | Inr copied \<Rightarrow> Inr (score # copied)))"

definition evaluate_model ::
  "py_globals \<Rightarrow> 'e \<Rightarrow> string list \<Rightarrow> aggregates \<Rightarrow> py_error + scored" where
  "evaluate_model globals evaluator prompts model_data =
     (case query_answer_pairs prompts (outputs model_data) of
        Inl e \<Rightarrow> Inl e
      | Inr all_query_answer_pairs \<Rightarrow>
          (case evaluate_answers globals evaluator all_query_answer_pairs of
             Inl e \<Rightarrow> Inl e
           | Inr evaluation' \<Rightarrow>
               (case copy_evaluation evaluation' [0..<length (outputs model_data)] of
                  Inl e \<Rightarrow> Inl e
                | Inr copied \<Rightarrow>
                    Inr \<lparr>outputs = outputs model_data,
                         total_latency = total_latency model_data,
                         total_cost = total_cost model_data,
                         median_latency = median_latency model_data,
                         aggregated_speed = aggregated_speed model_data,
                         evaluation = copied\<rparr>)))"

subsection \<open>Ranking (lines 298-309)\<close>

text \<open>\<open>model_results[x]\<close> for a key \<open>x\<close> of the dict.\<close>

definition dict_get :: "('p \<times> 'a) list \<Rightarrow> 'p \<Rightarrow> 'a" where
  "dict_get d x = the (map_of d x)"

definition score_key :: "('p \<times> scored) list \<Rightarrow> 'p \<Rightarrow> real" where
  "score_key model_results x =
     aggregated_speed (dict_get model_results x) *
     of_int (py_sum (evaluation (dict_get model_results x)))"

definition speed_key :: "('p \<times> aggregates) list \<Rightarrow> 'p \<Rightarrow> real" where
  "speed_key model_results x = aggregated_speed (dict_get model_results x)"

definition sorted_models_scored :: "('p \<times> scored) list \<Rightarrow> 'p list" where
  "sorted_models_scored model_results =
     py_sorted_reverse (score_key model_results) (map fst model_results)"

definition sorted_models_plain :: "('p \<times> aggregates) list \<Rightarrow> 'p list" where
  "sorted_models_plain model_results =
     py_sorted_reverse (speed_key model_results) (map fst model_results)"

subsection \<open>The benchmark up to the ranking\<close>

text \<open>
  The state of \<open>benchmark\<close> after line 309: the ranking \<open>sorted_models\<close> and the dict
  \<open>model_results\<close>, without or with evaluation.
\<close>

datatype 'p ranked =
    Unscored "'p list" "('p \<times> aggregates) list"
  | Scored "'p list" "('p \<times> scored) list"

text \<open>
  \<open>providers\<close> is \<open>self._providers\<close>. The built-in prompts of lines 169-191 hold code
  points above 255, so their list is the parameter \<open>default_prompts\<close>. \<open>prompts\<close> and
  \<open>evaluator\<close> are \<open>None\<close> when the caller leaves them out; an evaluator object is true.
  \<open>order\<close> is the order in which the tasks of the providers finish, \<open>orders m\<close> the
  order in which the prompts of provider \<open>m\<close> finish.
\<close>

definition benchmark_ranking ::
  "py_globals \<Rightarrow> ('p \<Rightarrow> string \<Rightarrow> py_error + int response) \<Rightarrow> nat list \<Rightarrow> ('p \<Rightarrow> nat list) \<Rightarrow>
   string list \<Rightarrow> 'p list \<Rightarrow> string list option \<Rightarrow> 'e option \<Rightarrow> py_error + 'p ranked" where
  "benchmark_ranking globals complete_call order orders default_prompts providers prompts evaluator =
     (let prompts = (case prompts of
                       None \<Rightarrow> default_prompts
                     | Some ps \<Rightarrow> if ps = [] then default_prompts else ps);
          futures = map (\<lambda>model'.
                      process_prompts_sequentially complete_call (orders model') model' prompts)
                    providers
      in case collect_totals [] (as_completed order futures) of
           Inl e \<Rightarrow> Inl e
         | Inr model_results \<Rightarrow>
             (case for_each_model aggregate model_results of
                Inl e \<Rightarrow> Inl e
              | Inr model_results \<Rightarrow>
                  (case evaluator of
                     None \<Rightarrow>
                       Inr (Unscored (sorted_models_plain model_results) model_results)
                   | Some ev \<Rightarrow>
                       (case for_each_model (evaluate_model globals ev prompts)
                               model_results of
                          Inl e \<Rightarrow> Inl e
                        | Inr model_results \<Rightarrow>
                            Inr (Scored (sorted_models_scored model_results)
                                   model_results)))))"

text \<open>
  A median as the specification means it: at least half of the values are not above
  it and at least half are not below it.
\<close>

definition spec_is_median :: "real \<Rightarrow> real list \<Rightarrow> bool" where
  "spec_is_median m xs =
     (length xs \<le> 2 * length (filter (\<lambda>x. x \<le> m) xs) \<and>
      length xs \<le> 2 * length (filter (\<lambda>x. m \<le> x) xs))"

section \<open>Properties of the envelope\<close>

text \<open>
  C6. The three accessors \<open>text\<close>, \<open>html\<close> and \<open>meta\<close> collapse in the same way: on an
  envelope of exactly one result each returns the scalar taken from that result; on an
  envelope of \<open>N > 1\<close> results each returns a sequence of length \<open>N\<close> whose \<open>i\<close>-th element
  comes from the \<open>i\<close>-th result; and for every envelope the three agree on whether the
  value is a scalar or a sequence.
\<close>

theorem Result_collapse_uniform:
  "(length results = 1 \<longrightarrow>
      Result_text results = Scalar (r_text (hd results)) \<and>
      Result_html markdown results = Scalar (markdown (r_text (hd results))) \<and>
      Result_meta results = Scalar (r_meta (hd results))) \<and>
   (1 < length results \<longrightarrow>
      (\<exists>ts hs ms.
         Result_text results = Sequence ts \<and>
         Result_html markdown results = Sequence hs \<and>
         Result_meta results = Sequence ms \<and>
         length ts = length results \<and> length hs = length results \<and>
         length ms = length results \<and>
         (\<forall>i < length results.
            ts ! i = r_text (results ! i) \<and>
            hs ! i = markdown (r_text (results ! i)) \<and>
            ms ! i = r_meta (results ! i)))) \<and>
   is_scalar (Result_text results) = is_scalar (Result_html markdown results) \<and>
   is_scalar (Result_html markdown results) = is_scalar (Result_meta results)"
proof -
  have one: "hd results = results ! 0" if "length results = 1"
    using that by (cases results) simp_all
  show ?thesis
    by (simp add: Result_text_def Result_html_def Result_meta_def one)
qed

theorem Result_collapse_uniform_witness:
  "length [\<lparr>r_text = ''a'', r_meta = (1::nat), r_provider = ''p''\<rparr>] = 1 \<and>
   Result_text [\<lparr>r_text = ''a'', r_meta = (1::nat), r_provider = ''p''\<rparr>] = Scalar ''a'' \<and>
   Result_html (\<lambda>s. s @ ''!'') [\<lparr>r_text = ''a'', r_meta = (1::nat), r_provider = ''p''\<rparr>]
     = Scalar ''a!'' \<and>
   Result_meta [\<lparr>r_text = ''a'', r_meta = (1::nat), r_provider = ''p''\<rparr>] = Scalar 1 \<and>
   1 < length [\<lparr>r_text = ''a'', r_meta = (1::nat), r_provider = ''p''\<rparr>,
               \<lparr>r_text = ''b'', r_meta = 2, r_provider = ''q''\<rparr>] \<and>
   is_scalar (Result_text [\<lparr>r_text = ''a'', r_meta = (1::nat), r_provider = ''p''\<rparr>,
               \<lparr>r_text = ''b'', r_meta = 2, r_provider = ''q''\<rparr>])
     = is_scalar (Result_meta [\<lparr>r_text = ''a'', r_meta = (1::nat), r_provider = ''p''\<rparr>,
               \<lparr>r_text = ''b'', r_meta = 2, r_provider = ''q''\<rparr>])"
  using Result_collapse_uniform
          [of "[\<lparr>r_text = ''a'', r_meta = (1::nat), r_provider = ''p''\<rparr>]" "\<lambda>s. s @ ''!''"]
        Result_collapse_uniform
          [of "[\<lparr>r_text = ''a'', r_meta = (1::nat), r_provider = ''p''\<rparr>,
                \<lparr>r_text = ''b'', r_meta = 2, r_provider = ''q''\<rparr>]" "\<lambda>s. s @ ''!''"]
  by simp

section \<open>Properties of the string primitives\<close>

lemma py_in_sublist: "py_in q s = sublist q s"
  by (induction s) (simp_all add: sublist_Cons_right)

lemma py_in_lower_contains_ci:
  "py_in (py_lower q) (py_lower s) = spec_contains_ci q s"
proof
  assume "py_in (py_lower q) (py_lower s)"
  then have "sublist (map lower_char q) (map lower_char s)"
    by (simp add: py_in_sublist py_lower_def)
  then show "spec_contains_ci q s"
    unfolding spec_contains_ci_def py_lower_def
    using sublist_map_rightE [of "map lower_char q" lower_char s] by auto
next
  assume "spec_contains_ci q s"
  then obtain piece where "sublist piece s" and "py_lower piece = py_lower q"
    by (auto simp: spec_contains_ci_def)
  then have "sublist (py_lower q) (py_lower s)"
    unfolding py_lower_def using map_mono_sublist [of piece s lower_char] by simp
  then show "py_in (py_lower q) (py_lower s)" by (simp add: py_in_sublist)
qed

section \<open>Properties of the Dispatcher\<close>

text \<open>
  C7. With more than one provider configured, \<open>acomplete\<close> fails with
  \<open>NotImplementedError\<close> and iterating \<open>complete_stream\<close> fails with \<open>ValueError\<close> before
  any chunk, whatever the prompt, the options and the adapters are; with a single
  provider of the AI21 family, iterating \<open>complete_stream\<close> fails with \<open>ValueError\<close>
  before any chunk. These two exceptions are the code's form of the specification's
  UnsupportedOperation.
\<close>

theorem multi_provider_unsupported:
  "(1 < length providers \<longrightarrow>
      LLMS_acomplete adapter format_5f round_2 providers prompt opts
        = Inl (NotImplementedError ''acomplete not supported for multi-models yet.'') \<and>
      LLMS_complete_stream stream providers prompt opts
        = \<lparr>chunks = [],
           raised = Some (ValueError [''Streaming is possible only with a single model''])\<rparr>) \<and>
   (family p = AI21 \<longrightarrow>
      LLMS_complete_stream stream [p] prompt opts
        = \<lparr>chunks = [],
           raised = Some (ValueError [''Streaming is not yet supported with AI21 models''])\<rparr>)"
  by (simp add: LLMS_acomplete_def LLMS_complete_stream_def py_getitem_def)

theorem multi_provider_unsupported_witness:
  "1 < length [\<lparr>family = OpenAI, api_key = ''k'', model = ''gpt-4''\<rparr>,
               \<lparr>family = OpenAI, api_key = ''k'', model = ''gpt-4o''\<rparr>] \<and>
   LLMS_acomplete (\<lambda>p s (u::unit). Inr \<lparr>resp_text = s,
        resp_meta = \<lparr>m_tokens = (3::nat), m_cost = 0, m_latency = 1\<rparr>\<rparr>) (\<lambda>c. ''0.00000'') (\<lambda>l. l)
      [\<lparr>family = OpenAI, api_key = ''k'', model = ''gpt-4''\<rparr>,
       \<lparr>family = OpenAI, api_key = ''k'', model = ''gpt-4o''\<rparr>] ''hello'' ()
     = Inl (NotImplementedError ''acomplete not supported for multi-models yet.'') \<and>
   LLMS_complete_stream (\<lambda>p s (u::unit). \<lparr>chunks = [s], raised = None\<rparr>)
      [\<lparr>family = OpenAI, api_key = ''k'', model = ''gpt-4''\<rparr>,
       \<lparr>family = OpenAI, api_key = ''k'', model = ''gpt-4o''\<rparr>] ''hello'' ()
     = \<lparr>chunks = [],
        raised = Some (ValueError [''Streaming is possible only with a single model''])\<rparr> \<and>
   family \<lparr>family = AI21, api_key = ''k'', model = ''j2-ultra''\<rparr> = AI21 \<and>
   LLMS_complete_stream (\<lambda>p s (u::unit). \<lparr>chunks = [s], raised = None\<rparr>)
      [\<lparr>family = AI21, api_key = ''k'', model = ''j2-ultra''\<rparr>] ''hello'' ()
     = \<lparr>chunks = [],
        raised = Some (ValueError [''Streaming is not yet supported with AI21 models''])\<rparr>"
  using multi_provider_unsupported
          [of "[\<lparr>family = OpenAI, api_key = ''k'', model = ''gpt-4''\<rparr>,
                \<lparr>family = OpenAI, api_key = ''k'', model = ''gpt-4o''\<rparr>]"
              "\<lambda>p s (u::unit). Inr \<lparr>resp_text = s,
                 resp_meta = \<lparr>m_tokens = (3::nat), m_cost = 0, m_latency = 1\<rparr>\<rparr>"
              "\<lambda>c. ''0.00000''" "\<lambda>l. l" "''hello''" "()"
              "\<lambda>p s (u::unit). \<lparr>chunks = [s], raised = None\<rparr>"
              "\<lparr>family = AI21, api_key = ''k'', model = ''j2-ultra''\<rparr>"]
  by simp

text \<open>
  C10. An empty list of model names constructs a Dispatcher with no provider and no
  error; on it \<open>acomplete\<close> fails with \<open>IndexError\<close> and iterating \<open>complete_stream\<close> fails
  with \<open>IndexError\<close> before any chunk: the guard on more than one provider does not
  fire, and \<open>self._providers[0]\<close> is out of range.
\<close>

theorem no_provider_index_error:
  "LLMS_init T env (args\<lparr>arg_model := ModelList []\<rparr>) = Inr [] \<and>
   LLMS_acomplete adapter format_5f round_2 [] prompt opts = Inl IndexError \<and>
   LLMS_complete_stream stream [] prompt opts = \<lparr>chunks = [], raised = Some IndexError\<rparr>"
  by (simp add: LLMS_init_def requested_models_def LLMS_acomplete_def
        LLMS_complete_stream_def py_getitem_def)

section \<open>Properties of the construction\<close>

lemma spec_resolve_chain:
  "spec_resolve T env args name =
     (if credential env args OpenAI \<noteq> None \<and> name \<in> set (map fst OpenAIProvider_MODEL_INFO)
      then Some OpenAI
      else if credential env args Anthropic \<noteq> None \<and>
              name \<in> set (map fst (AnthropicProvider_MODEL_INFO T))
      then Some Anthropic
      else if credential env args AI21 \<noteq> None \<and>
              name \<in> set (map fst (AI21Provider_MODEL_INFO T))
      then Some AI21
      else None)"
  by (simp add: spec_resolve_def family_priority_def)

lemma append_providers_spec:
  "append_providers T (credential env args OpenAI) (credential env args Anthropic)
     (credential env args AI21) acc names =
     (case find (\<lambda>name. spec_resolve T env args name = None) names of
        Some bad \<Rightarrow> Inl (ValueError [''Invalid API key and model combination'', bad])
      | None \<Rightarrow> Inr (acc @ map (spec_handle T env args) names))"
proof (induction names arbitrary: acc)
  case Nil
  show ?case by simp
next
  case (Cons name names)
  show ?case
    unfolding append_providers.simps find.simps Cons.IH
    by (auto simp: spec_resolve_chain [of T env args name] spec_handle_def Let_def
          split: option.splits)
qed

lemma LLMS_init_spec:
  "LLMS_init T env args =
     (case find (\<lambda>name. spec_resolve T env args name = None)
             (requested_models env (arg_model args)) of
        Some bad \<Rightarrow> Inl (ValueError [''Invalid API key and model combination'', bad])
      | None \<Rightarrow> Inr (map (spec_handle T env args) (requested_models env (arg_model args))))"
  using append_providers_spec [of T env args "[]" "requested_models env (arg_model args)"]
  by (simp add: LLMS_init_def split: option.splits)

lemma spec_resolve_Some:
  assumes "spec_resolve T env args name = Some f"
  shows "credential env args f \<noteq> None \<and> name \<in> set (map fst (MODEL_INFO T f))"
  using assms unfolding spec_resolve_def by (auto dest: find_Some_iff [THEN iffD1])

text \<open>
  C8. Construction resolves each requested model name to the first family, in the
  order OpenAI, Anthropic, AI21, that has a credential and whose table contains the
  name. If some name has no such family, construction fails with \<open>ValueError\<close> (the
  code's InvalidConfiguration) carrying the first such name; otherwise it yields one
  provider per requested name, in order, each of the resolved family with that
  family's credential. With no model argument and no \<open>LLMS_DEFAULT_MODEL\<close> in the
  environment the requested name is \<open>gpt-3.5-turbo\<close>.
\<close>

theorem LLMS_init_resolves_by_priority:
  "LLMS_init T env args =
     (case find (\<lambda>name. spec_resolve T env args name = None)
             (requested_models env (arg_model args)) of
        Some bad \<Rightarrow> Inl (ValueError [''Invalid API key and model combination'', bad])
      | None \<Rightarrow> Inr (map (spec_handle T env args) (requested_models env (arg_model args)))) \<and>
   (LLMS_init T env args = Inr providers \<longrightarrow>
      map model providers = requested_models env (arg_model args) \<and>
      (\<forall>p \<in> set providers.
         spec_resolve T env args (model p) = Some (family p) \<and>
         credential env args (family p) = Some (api_key p) \<and>
         model p \<in> set (map fst (MODEL_INFO T (family p))))) \<and>
   (env ''LLMS_DEFAULT_MODEL'' = None \<longrightarrow>
      requested_models env ModelNone = [''gpt-3.5-turbo''])"
proof (intro conjI impI)
  show "LLMS_init T env args =
     (case find (\<lambda>name. spec_resolve T env args name = None)
             (requested_models env (arg_model args)) of
        Some bad \<Rightarrow> Inl (ValueError [''Invalid API key and model combination'', bad])
      | None \<Rightarrow> Inr (map (spec_handle T env args) (requested_models env (arg_model args))))"
    by (rule LLMS_init_spec)
next
  assume ok: "LLMS_init T env args = Inr providers"
  let ?names = "requested_models env (arg_model args)"
  from ok have none: "find (\<lambda>name. spec_resolve T env args name = None) ?names = None"
    and ps: "providers = map (spec_handle T env args) ?names"
    unfolding LLMS_init_spec by (auto split: option.splits)
  show "map model providers = ?names"
    unfolding ps by (simp add: spec_handle_def Let_def comp_def)
  show "\<forall>p \<in> set providers.
         spec_resolve T env args (model p) = Some (family p) \<and>
         credential env args (family p) = Some (api_key p) \<and>
         model p \<in> set (map fst (MODEL_INFO T (family p)))"
  proof
    fix p assume "p \<in> set providers"
    then obtain name where name: "name \<in> set ?names" and p: "p = spec_handle T env args name"
      unfolding ps by auto
    from none name have "spec_resolve T env args name \<noteq> None"
      by (auto simp: find_None_iff)
    then obtain f where f: "spec_resolve T env args name = Some f" by auto
    from spec_resolve_Some [OF f] obtain k where k: "credential env args f = Some k"
      and mem: "name \<in> set (map fst (MODEL_INFO T f))" by auto
    show "spec_resolve T env args (model p) = Some (family p) \<and>
         credential env args (family p) = Some (api_key p) \<and>
         model p \<in> set (map fst (MODEL_INFO T (family p)))"
      using f k mem by (simp add: p spec_handle_def)
  qed
next
  assume "env ''LLMS_DEFAULT_MODEL'' = None"
  then show "requested_models env ModelNone = [''gpt-3.5-turbo'']"
    by (simp add: requested_models_def)
qed

theorem LLMS_init_resolves_by_priority_witness:
  "(Map.empty :: environ) ''LLMS_DEFAULT_MODEL'' = None \<and>
   requested_models Map.empty ModelNone = [''gpt-3.5-turbo''] \<and>
   LLMS_init \<lparr>AnthropicProvider_MODEL_INFO = [], AI21Provider_MODEL_INFO = []\<rparr> Map.empty
      \<lparr>arg_model = ModelNone, openai_api_key = Some ''sk'', anthropic_api_key = None,
       ai21_api_key = None\<rparr>
     = Inr [\<lparr>family = OpenAI, api_key = ''sk'', model = ''gpt-3.5-turbo''\<rparr>] \<and>
   spec_resolve \<lparr>AnthropicProvider_MODEL_INFO = [], AI21Provider_MODEL_INFO = []\<rparr> Map.empty
      \<lparr>arg_model = ModelNone, openai_api_key = Some ''sk'', anthropic_api_key = None,
       ai21_api_key = None\<rparr> ''gpt-3.5-turbo'' = Some OpenAI"
proof -
  have run: "LLMS_init \<lparr>AnthropicProvider_MODEL_INFO = [], AI21Provider_MODEL_INFO = []\<rparr> Map.empty
      \<lparr>arg_model = ModelNone, openai_api_key = Some ''sk'', anthropic_api_key = None,
       ai21_api_key = None\<rparr>
     = Inr [\<lparr>family = OpenAI, api_key = ''sk'', model = ''gpt-3.5-turbo''\<rparr>]"
    by (simp add: LLMS_init_def requested_models_def resolve_key_def
          OpenAIProvider_MODEL_INFO_def)
  have env: "(Map.empty :: environ) ''LLMS_DEFAULT_MODEL'' = None" by simp
  note inst = LLMS_init_resolves_by_priority
        [of "\<lparr>AnthropicProvider_MODEL_INFO = [], AI21Provider_MODEL_INFO = []\<rparr>" Map.empty
            "\<lparr>arg_model = ModelNone, openai_api_key = Some ''sk'', anthropic_api_key = None,
              ai21_api_key = None\<rparr>"
            "[\<lparr>family = OpenAI, api_key = ''sk'', model = ''gpt-3.5-turbo''\<rparr>]"]
  from inst run have
    "\<forall>p \<in> set [\<lparr>family = OpenAI, api_key = ''sk'', model = ''gpt-3.5-turbo''\<rparr>].
      spec_resolve \<lparr>AnthropicProvider_MODEL_INFO = [], AI21Provider_MODEL_INFO = []\<rparr> Map.empty
        \<lparr>arg_model = ModelNone, openai_api_key = Some ''sk'', anthropic_api_key = None,
         ai21_api_key = None\<rparr> (model p) = Some (family p)"
    by blast
  then have resolved:
    "spec_resolve \<lparr>AnthropicProvider_MODEL_INFO = [], AI21Provider_MODEL_INFO = []\<rparr> Map.empty
      \<lparr>arg_model = ModelNone, openai_api_key = Some ''sk'', anthropic_api_key = None,
       ai21_api_key = None\<rparr> ''gpt-3.5-turbo'' = Some OpenAI"
    by simp
  from inst env have fallback: "requested_models Map.empty ModelNone = [''gpt-3.5-turbo'']"
    by blast
  from env fallback run resolved show ?thesis by blast
qed

section \<open>Properties of the listing\<close>

lemma in_all_providers: "f \<in> set all_providers"
  by (cases f) (simp_all add: all_providers_def)

lemma set_model_info_list:
  "set (model_info_list T query) =
     {\<lparr>l_provider = class_name f, l_name = name, l_cost = cost\<rparr> | f name cost.
        (name, cost) \<in> set (MODEL_INFO T f) \<and> \<not> skipped query f name}"
  unfolding model_info_list_def using in_all_providers
  by (auto split: if_splits)

lemma not_skipped_iff:
  "(\<not> skipped (Some q) f name) =
     (spec_contains_ci q name \<or> spec_contains_ci q (class_name f))"
proof (cases "q = []")
  case True
  have "spec_contains_ci [] name"
    unfolding spec_contains_ci_def by (rule exI [of _ "[]"]) simp
  with True show ?thesis by (simp add: skipped_def)
next
  case False
  then show ?thesis
    by (simp add: skipped_def py_in_lower_contains_ci)
qed

text \<open>
  C9. \<open>list(query)\<close> returns only entries whose model name or adapter class name contains
  the query as a case-insensitive substring, and it returns every such entry of the
  tables of all three families; without a query it returns every entry of all three
  tables; the configured providers play no part. The result is ordered by
  non-decreasing sum of prompt cost and completion cost.
\<close>

theorem LLMS_list_filtered_sorted:
  "(\<forall>e \<in> set (LLMS_list T (Some q)).
      spec_contains_ci q (l_name e) \<or> spec_contains_ci q (l_provider e)) \<and>
   set (LLMS_list T (Some q)) =
     {e \<in> spec_catalogue T. spec_contains_ci q (l_name e) \<or> spec_contains_ci q (l_provider e)} \<and>
   set (LLMS_list T None) = spec_catalogue T \<and>
   sorted (map unit_cost (LLMS_list T query))"
proof -
  have sorted: "sorted (map unit_cost (LLMS_list T query))"
    unfolding LLMS_list_def py_sorted_def
    using sorted_sort_key [of unit_cost "model_info_list T query"]
    by (simp add: unit_cost_def [abs_def])
  have some: "set (LLMS_list T (Some q)) =
     {e \<in> spec_catalogue T. spec_contains_ci q (l_name e) \<or> spec_contains_ci q (l_provider e)}"
    unfolding LLMS_list_def py_sorted_def set_sort set_model_info_list not_skipped_iff
      spec_catalogue_def
    by auto
  have none: "set (LLMS_list T None) = spec_catalogue T"
    unfolding LLMS_list_def py_sorted_def set_sort set_model_info_list spec_catalogue_def
    by (simp add: skipped_def)
  from some have "\<forall>e \<in> set (LLMS_list T (Some q)).
      spec_contains_ci q (l_name e) \<or> spec_contains_ci q (l_provider e)"
    by simp
  with sorted some none show ?thesis by blast
qed

theorem LLMS_list_filtered_sorted_witness:
  "map l_name
     (LLMS_list \<lparr>AnthropicProvider_MODEL_INFO = [], AI21Provider_MODEL_INFO = []\<rparr> (Some ''O1''))
     = [''o1-mini'', ''o1-preview'', ''o1''] \<and>
   (spec_contains_ci ''O1'' ''o1-mini'' \<or> spec_contains_ci ''O1'' ''OpenAIProvider'') \<and>
   sorted (map unit_cost
     (LLMS_list \<lparr>AnthropicProvider_MODEL_INFO = [], AI21Provider_MODEL_INFO = []\<rparr> (Some ''O1'')))"
proof -
  let ?T = "\<lparr>AnthropicProvider_MODEL_INFO = [], AI21Provider_MODEL_INFO = []\<rparr>"
  have names: "map l_name (LLMS_list ?T (Some ''O1'')) = [''o1-mini'', ''o1-preview'', ''o1'']"
    by (simp add: LLMS_list_def py_sorted_def model_info_list_def all_providers_def
          OpenAIProvider_MODEL_INFO_def skipped_def py_lower_def lower_char_def char_of_def bit_0)
  have classes: "map l_provider (LLMS_list ?T (Some ''O1''))
      = [''OpenAIProvider'', ''OpenAIProvider'', ''OpenAIProvider'']"
    by (simp add: LLMS_list_def py_sorted_def model_info_list_def all_providers_def
          OpenAIProvider_MODEL_INFO_def skipped_def py_lower_def lower_char_def char_of_def bit_0)
  from names obtain e es where list: "LLMS_list ?T (Some ''O1'') = e # es"
    by (cases "LLMS_list ?T (Some ''O1'')") auto
  from names classes list have e: "l_name e = ''o1-mini''" "l_provider e = ''OpenAIProvider''"
    by simp_all
  note inst = LLMS_list_filtered_sorted [of ?T "''O1''" "Some ''O1''"]
  from list have "e \<in> set (LLMS_list ?T (Some ''O1''))" by simp
  with inst have "spec_contains_ci ''O1'' (l_name e) \<or> spec_contains_ci ''O1'' (l_provider e)"
    by blast
  with e have first: "spec_contains_ci ''O1'' ''o1-mini'' \<or> spec_contains_ci ''O1'' ''OpenAIProvider''"
    by simp
  from inst have "sorted (map unit_cost (LLMS_list ?T (Some ''O1'')))" by blast
  with names first show ?thesis by blast
qed

section \<open>Properties of the aggregation\<close>

lemma add_outputs_fields:
  "outputs (add_outputs r os) = outputs r \<and>
   total_latency (add_outputs r os) = total_latency r + sum_list (map o_latency os) \<and>
   total_cost (add_outputs r os) = total_cost r + sum_list (map o_cost os)"
  by (induction os arbitrary: r) simp_all

lemma model_totals_fields:
  "outputs (model_totals outs) = outs"
  "total_latency (model_totals outs) = sum_list (map o_latency outs)"
  "total_cost (model_totals outs) = sum_list (map o_cost outs)"
  by (simp_all add: model_totals_def add_outputs_fields)

lemma foldl_plus_sum_list: "foldl (+) a xs = a + sum_list xs" for a :: int
  by (induction xs arbitrary: a) simp_all

lemma py_sum_sum_list: "py_sum xs = sum_list xs"
  by (simp add: py_sum_def foldl_plus_sum_list)

lemma count_le_sorted:
  assumes "sorted ys" "k < length ys" "ys ! k \<le> m"
  shows "k + 1 \<le> length (filter (\<lambda>x. x \<le> m) ys)"
proof -
  have all: "\<forall>x \<in> set (take (k + 1) ys). x \<le> m"
  proof
    fix x assume "x \<in> set (take (k + 1) ys)"
    then obtain i where "i < k + 1" "i < length ys" "x = ys ! i"
      by (auto simp: in_set_conv_nth)
    with assms show "x \<le> m"
      using sorted_nth_mono [of ys i k] by force
  qed
  have "filter (\<lambda>x. x \<le> m) ys =
        filter (\<lambda>x. x \<le> m) (take (k + 1) ys) @ filter (\<lambda>x. x \<le> m) (drop (k + 1) ys)"
    by (metis append_take_drop_id filter_append)
  moreover have "filter (\<lambda>x. x \<le> m) (take (k + 1) ys) = take (k + 1) ys"
    using all by (simp add: filter_id_conv)
  ultimately show ?thesis using assms(2) by simp
qed

lemma count_ge_sorted:
  assumes "sorted ys" "k < length ys" "m \<le> ys ! k"
  shows "length ys - k \<le> length (filter (\<lambda>x. m \<le> x) ys)"
proof -
  have all: "\<forall>x \<in> set (drop k ys). m \<le> x"
  proof
    fix x assume "x \<in> set (drop k ys)"
    then obtain i where "i < length ys - k" "x = ys ! (k + i)"
      by (auto simp: in_set_conv_nth)
    with assms show "m \<le> x"
      using sorted_nth_mono [of ys k "k + i"] by force
  qed
  have "filter (\<lambda>x. m \<le> x) ys =
        filter (\<lambda>x. m \<le> x) (take k ys) @ filter (\<lambda>x. m \<le> x) (drop k ys)"
    by (metis append_take_drop_id filter_append)
  moreover have "filter (\<lambda>x. m \<le> x) (drop k ys) = drop k ys"
    using all by (simp add: filter_id_conv)
  ultimately show ?thesis by simp
qed

lemma length_filter_sort:
  "length (filter P (sort xs)) = length (filter P xs)" for xs :: "real list"
proof -
  have "mset (filter P (sort xs)) = mset (filter P xs)" by simp
  then show ?thesis by (metis size_mset)
qed

lemma sort_eq_Nil_iff: "(sort xs = []) = (xs = [])" for xs :: "real list"
  by (metis length_sort length_0_conv)

lemma statistics_median_unfold:
  "statistics_median xs =
     (if xs = [] then Inl StatisticsError
      else if length xs mod 2 = 1 then Inr (sort xs ! (length xs div 2))
      else Inr ((sort xs ! (length xs div 2 - 1) + sort xs ! (length xs div 2)) / 2))"
  by (simp add: statistics_median_def Let_def sort_eq_Nil_iff)

lemma statistics_median_is_median:
  assumes "statistics_median xs = Inr m"
  shows "spec_is_median m xs"
proof -
  let ?ys = "sort xs"
  let ?n = "length xs"
  have sorted: "sorted ?ys" by simp
  have len: "length ?ys = ?n" by simp
  from assms have pos: "0 < ?n"
    by (auto simp: statistics_median_unfold split: if_splits)
  show ?thesis
  proof (cases "?n mod 2 = 1")
    case True
    with assms pos have m: "m = ?ys ! (?n div 2)"
      by (auto simp: statistics_median_unfold split: if_splits)
    have k: "?n div 2 < length ?ys" using pos by simp
    have a: "?n div 2 + 1 \<le> length (filter (\<lambda>x. x \<le> m) ?ys)"
      using count_le_sorted [OF sorted k] m by simp
    have b: "length ?ys - ?n div 2 \<le> length (filter (\<lambda>x. m \<le> x) ?ys)"
      using count_ge_sorted [OF sorted k] m by simp
    from a b True show ?thesis
      unfolding spec_is_median_def length_filter_sort len by presburger
  next
    case False
    with assms pos have m: "m = (?ys ! (?n div 2 - 1) + ?ys ! (?n div 2)) / 2"
      by (auto simp: statistics_median_unfold split: if_splits)
    from False pos have two: "2 \<le> ?n" by presburger
    have k1: "?n div 2 - 1 < length ?ys" and k2: "?n div 2 < length ?ys"
      using two by simp_all
    have le: "?ys ! (?n div 2 - 1) \<le> ?ys ! (?n div 2)"
      using sorted_nth_mono [OF sorted, of "?n div 2 - 1" "?n div 2"] k2 by simp
    have lo: "?ys ! (?n div 2 - 1) \<le> m" and hi: "m \<le> ?ys ! (?n div 2)"
      using le unfolding m by simp_all
    have a: "?n div 2 - 1 + 1 \<le> length (filter (\<lambda>x. x \<le> m) ?ys)"
      using count_le_sorted [OF sorted k1 lo] .
    have b: "length ?ys - ?n div 2 \<le> length (filter (\<lambda>x. m \<le> x) ?ys)"
      using count_ge_sorted [OF sorted k2 hi] .
    from a b False two show ?thesis
      unfolding spec_is_median_def length_filter_sort len by presburger
  qed
qed

lemma statistics_median_defined:
  assumes "xs \<noteq> []"
  shows "\<exists>m. statistics_median xs = Inr m"
  unfolding statistics_median_unfold using assms by (simp only: if_False) metis

lemma statistics_median_empty: "statistics_median [] = Inl StatisticsError"
  by (simp add: statistics_median_def)

lemma aggregate_zero_latency:
  assumes "outputs r \<noteq> []" "total_latency r = 0"
  shows "aggregate r = Inl ZeroDivisionError"
proof -
  from assms(1) obtain m where "statistics_median (map o_latency (outputs r)) = Inr m"
    using statistics_median_defined [of "map o_latency (outputs r)"] by auto
  with assms(2) show ?thesis
    by (simp add: aggregate_def py_truediv_def Let_def)
qed

lemma aggregate_defined:
  assumes "outputs r \<noteq> []" "total_latency r \<noteq> 0"
  shows "\<exists>m. statistics_median (map o_latency (outputs r)) = Inr m \<and>
           aggregate r =
             Inr \<lparr>outputs = outputs r, total_latency = total_latency r,
                  total_cost = total_cost r, median_latency = m,
                  aggregated_speed =
                    of_int (sum_list (map o_tokens (outputs r))) / total_latency r\<rparr>"
proof -
  from assms(1) obtain m where m: "statistics_median (map o_latency (outputs r)) = Inr m"
    using statistics_median_defined [of "map o_latency (outputs r)"] by auto
  with assms(2) show ?thesis
    by (simp add: aggregate_def py_truediv_def py_sum_sum_list Let_def)
qed

lemma for_each_model_zero_latency:
  assumes "\<forall>(m, r) \<in> set model_results. outputs r \<noteq> []"
    and "\<exists>(m, r) \<in> set model_results. total_latency r = 0"
  shows "for_each_model aggregate model_results = Inl ZeroDivisionError"
  using assms
proof (induction model_results)
  case Nil
  then show ?case by simp
next
  case (Cons entry rest)
  obtain m r where entry: "entry = (m, r)" by (cases entry)
  from Cons.prems(1) entry have nonempty: "outputs r \<noteq> []" by simp
  show ?case
  proof (cases "total_latency r = 0")
    case True
    with nonempty show ?thesis
      by (simp add: entry aggregate_zero_latency)
  next
    case False
    with nonempty obtain r' where r': "aggregate r = Inr r'"
      using aggregate_defined [of r] by auto
    from Cons.prems False entry
    have "for_each_model aggregate rest = Inl ZeroDivisionError"
      by (intro Cons.IH) auto
    with r' show ?thesis by (simp add: entry)
  qed
qed

text \<open>
  C3. When the outcomes collected for a provider are not empty and their latencies add
  up to zero, computing the provider's aggregates fails with \<open>ZeroDivisionError\<close> (the
  code's DegenerateMetric): no speed is produced. The loop over all providers fails in
  the same way as soon as one provider has total latency zero.
\<close>

theorem zero_total_latency_fails:
  "(outs \<noteq> [] \<and> sum_list (map o_latency outs) = 0 \<longrightarrow>
      aggregate (model_totals outs) = Inl ZeroDivisionError) \<and>
   ((\<forall>(m, r) \<in> set model_results. outputs r \<noteq> []) \<and>
    (\<exists>(m, r) \<in> set model_results. total_latency r = 0) \<longrightarrow>
      for_each_model aggregate model_results = Inl ZeroDivisionError)"
  using aggregate_zero_latency [of "model_totals outs"]
    for_each_model_zero_latency [of model_results]
  by (simp add: model_totals_fields)

theorem zero_total_latency_fails_witness:
  "[\<lparr>o_text = ''a'', o_tokens = 10, o_latency = 0, o_cost = 1, prompt_index = 0\<rparr>] \<noteq> [] \<and>
   sum_list (map o_latency
     [\<lparr>o_text = ''a'', o_tokens = 10, o_latency = 0, o_cost = 1, prompt_index = 0\<rparr>]) = 0 \<and>
   aggregate (model_totals
     [\<lparr>o_text = ''a'', o_tokens = 10, o_latency = 0, o_cost = 1, prompt_index = 0\<rparr>])
     = Inl ZeroDivisionError \<and>
   for_each_model aggregate
     [(''A'', model_totals
        [\<lparr>o_text = ''a'', o_tokens = 10, o_latency = 0, o_cost = 1, prompt_index = 0\<rparr>])]
     = Inl ZeroDivisionError"
proof -
  let ?outs = "[\<lparr>o_text = ''a'', o_tokens = 10, o_latency = 0, o_cost = 1, prompt_index = 0\<rparr>]"
  have zero: "?outs \<noteq> [] \<and> sum_list (map o_latency ?outs) = 0" by simp
  have dict: "(\<forall>(m, r) \<in> set [(''A'', model_totals ?outs)]. outputs r \<noteq> []) \<and>
              (\<exists>(m, r) \<in> set [(''A'', model_totals ?outs)]. total_latency r = 0)"
    by (simp add: model_totals_def)
  from zero dict
    zero_total_latency_fails [of ?outs "[(''A'', model_totals ?outs)]"]
  show ?thesis by blast
qed

text \<open>
  C4. When the outcomes collected for a provider are not empty and their latencies do
  not add up to zero, the aggregates are: total latency, the sum of the latencies;
  total cost, the sum of the costs; median latency, the value of \<open>statistics.median\<close> on
  the latencies, which is a median of them; aggregated speed, the sum of the token
  counts divided by the total latency. Sums and quotient are exact.
\<close>

theorem aggregates_after_collection:
  assumes "outs \<noteq> []" and "sum_list (map o_latency outs) \<noteq> 0"
  shows "\<exists>r. aggregate (model_totals outs) = Inr r \<and>
           outputs r = outs \<and>
           total_latency r = sum_list (map o_latency outs) \<and>
           total_cost r = sum_list (map o_cost outs) \<and>
           statistics_median (map o_latency outs) = Inr (median_latency r) \<and>
           spec_is_median (median_latency r) (map o_latency outs) \<and>
           aggregated_speed r =
             of_int (sum_list (map o_tokens outs)) / sum_list (map o_latency outs)"
proof -
  from assms obtain m where m: "statistics_median (map o_latency outs) = Inr m"
    and agg: "aggregate (model_totals outs) =
      Inr \<lparr>outputs = outs, total_latency = sum_list (map o_latency outs),
           total_cost = sum_list (map o_cost outs), median_latency = m,
           aggregated_speed =
             of_int (sum_list (map o_tokens outs)) / sum_list (map o_latency outs)\<rparr>"
    using aggregate_defined [of "model_totals outs"] by (auto simp: model_totals_fields)
  from m have "spec_is_median m (map o_latency outs)"
    by (rule statistics_median_is_median)
  with m agg show ?thesis by simp
qed

theorem aggregates_after_collection_witness:
  "[\<lparr>o_text = ''a'', o_tokens = 10, o_latency = 1, o_cost = 0, prompt_index = 0\<rparr>,
    \<lparr>o_text = ''b'', o_tokens = 20, o_latency = 1, o_cost = 0, prompt_index = 1\<rparr>] \<noteq> [] \<and>
   sum_list (map o_latency
     [\<lparr>o_text = ''a'', o_tokens = 10, o_latency = 1, o_cost = 0, prompt_index = 0\<rparr>,
      \<lparr>o_text = ''b'', o_tokens = 20, o_latency = 1, o_cost = 0, prompt_index = 1\<rparr>]) \<noteq> 0 \<and>
   (\<exists>r. aggregate (model_totals
           [\<lparr>o_text = ''a'', o_tokens = 10, o_latency = 1, o_cost = 0, prompt_index = 0\<rparr>,
            \<lparr>o_text = ''b'', o_tokens = 20, o_latency = 1, o_cost = 0, prompt_index = 1\<rparr>])
          = Inr r \<and>
        total_latency r = 2 \<and> median_latency r = 1 \<and> aggregated_speed r = 15)"
proof -
  let ?outs = "[\<lparr>o_text = ''a'', o_tokens = 10, o_latency = 1, o_cost = 0, prompt_index = 0\<rparr>,
    \<lparr>o_text = ''b'', o_tokens = 20, o_latency = 1, o_cost = 0, prompt_index = 1\<rparr>]"
  have ne: "?outs \<noteq> []" by simp
  have nz: "sum_list (map o_latency ?outs) \<noteq> 0" by simp
  have med: "statistics_median (map o_latency ?outs) = Inr 1"
    by (simp add: statistics_median_unfold)
  from aggregates_after_collection [OF ne nz] obtain r where
    r: "aggregate (model_totals ?outs) = Inr r"
    and lat: "total_latency r = sum_list (map o_latency ?outs)"
    and m: "statistics_median (map o_latency ?outs) = Inr (median_latency r)"
    and sp: "aggregated_speed r =
       of_int (sum_list (map o_tokens ?outs)) / sum_list (map o_latency ?outs)"
    by blast
  from lat have "total_latency r = 2" by simp
  moreover from m med have "median_latency r = 1" by simp
  moreover from sp have "aggregated_speed r = 15" by simp
  ultimately show ?thesis using ne nz r by blast
qed

subsection \<open>The aggregates of a benchmark without an evaluator\<close>

text \<open>
  Whenever \<open>benchmark\<close> reaches the ranking, every provider of \<open>model_results\<close> carries
  the aggregates of its own outputs.
\<close>

lemma set_update_subset: "set (AList.update k v al) \<subseteq> insert (k, v) (set al)"
  by (induction al) auto

lemma collect_totals_values:
  assumes "collect_totals model_results futures = Inr model_results'"
    and "\<forall>(m, r) \<in> set model_results. r = model_totals (outputs r)"
  shows "\<forall>(m, r) \<in> set model_results'. r = model_totals (outputs r)"
  using assms
proof (induction futures arbitrary: model_results)
  case Nil
  then show ?case by simp
next
  case (Cons future rest)
  from Cons.prems(1) obtain m outs where future: "future = Inr (m, outs)"
    and rest: "collect_totals (AList.update m (model_totals outs) model_results) rest
                 = Inr model_results'"
    by (cases future) auto
  have "\<forall>(m', r) \<in> set (AList.update m (model_totals outs) model_results).
          r = model_totals (outputs r)"
    using Cons.prems(2) set_update_subset [of m "model_totals outs" model_results]
    by (auto simp: model_totals_fields)
  from Cons.IH [OF rest this] show ?case .
qed

lemma for_each_model_values:
  assumes "for_each_model body model_results = Inr model_results'"
    and "(m, r') \<in> set model_results'"
  shows "\<exists>r. (m, r) \<in> set model_results \<and> body r = Inr r'"
  using assms
proof (induction model_results arbitrary: model_results')
  case Nil
  then show ?case by simp
next
  case (Cons entry rest)
  obtain m0 r0 where entry: "entry = (m0, r0)" by (cases entry)
  from Cons.prems(1) entry obtain r0' rest' where r0': "body r0 = Inr r0'"
    and rest': "for_each_model body rest = Inr rest'"
    and res: "model_results' = (m0, r0') # rest'"
    by (auto split: sum.splits)
  from Cons.prems(2) res consider "(m, r') = (m0, r0')" | "(m, r') \<in> set rest'" by auto
  then show ?case
  proof cases
    case 1
    with r0' entry show ?thesis by auto
  next
    case 2
    from Cons.IH [OF rest' 2] show ?thesis by auto
  qed
qed

lemma aggregate_empty:
  assumes "outputs r = []"
  shows "aggregate r = Inl StatisticsError"
  using assms by (simp add: aggregate_def statistics_median_empty)

lemma benchmark_ranking_aggregates:
  assumes "benchmark_ranking globals complete_call order orders default_prompts providers
             prompts None = Inr (Unscored ranking model_results)"
    and "(m, r) \<in> set model_results"
  shows "outputs r \<noteq> [] \<and>
         total_latency r = sum_list (map o_latency (outputs r)) \<and>
         total_latency r \<noteq> 0 \<and>
         total_cost r = sum_list (map o_cost (outputs r)) \<and>
         spec_is_median (median_latency r) (map o_latency (outputs r)) \<and>
         aggregated_speed r = of_int (sum_list (map o_tokens (outputs r))) / total_latency r"
proof -
  from assms(1) obtain futures totals where
    collected: "collect_totals [] futures = Inr totals"
    and aggregated: "for_each_model aggregate totals = Inr model_results"
    by (auto simp: benchmark_ranking_def Let_def split: sum.splits)
  from for_each_model_values [OF aggregated assms(2)] obtain r0 where
    r0: "(m, r0) \<in> set totals" and agg: "aggregate r0 = Inr r"
    by auto
  from collect_totals_values [OF collected] r0 have shape: "r0 = model_totals (outputs r0)"
    by auto
  from agg have nonempty: "outputs r0 \<noteq> []"
    using aggregate_empty [of r0] by auto
  from agg nonempty have nonzero: "total_latency r0 \<noteq> 0"
    using aggregate_zero_latency [of r0] by auto
  from aggregate_defined [OF nonempty nonzero] agg obtain med where
    med: "statistics_median (map o_latency (outputs r0)) = Inr med"
    and r: "r = \<lparr>outputs = outputs r0, total_latency = total_latency r0,
                 total_cost = total_cost r0, median_latency = med,
                 aggregated_speed =
                   of_int (sum_list (map o_tokens (outputs r0))) / total_latency r0\<rparr>"
    by auto
  have lat: "total_latency r0 = sum_list (map o_latency (outputs r0))"
    and cost: "total_cost r0 = sum_list (map o_cost (outputs r0))"
    using shape model_totals_fields [of "outputs r0"] by simp_all
  from statistics_median_is_median [OF med] nonempty nonzero lat cost
  show ?thesis by (simp add: r)
qed

section \<open>Properties of the ranking\<close>

lemma py_sorted_reverse_descending:
  "sorted (rev (map k (py_sorted_reverse k xs)))"
  by (simp add: py_sorted_reverse_def rev_map [symmetric])

lemma py_sorted_reverse_mset: "mset (py_sorted_reverse k xs) = mset xs"
  by (simp add: py_sorted_reverse_def)

lemma py_sorted_reverse_stable:
  "filter (\<lambda>x. k x = v) (py_sorted_reverse k xs) = filter (\<lambda>x. k x = v) xs"
  by (simp add: py_sorted_reverse_def rev_filter [symmetric] sort_key_stable)

text \<open>
  The sorting step of lines 298-309, for any \<open>model_results\<close>: the list it yields is a
  rearrangement of the providers, in non-increasing order of aggregated speed times
  the sum of the evaluation scores (lines 298-303) or of aggregated speed (lines
  305-309).
\<close>

lemma sorted_models_scored_descending:
  "sorted (rev (map (\<lambda>x. aggregated_speed (dict_get scored_results x) *
                        of_int (sum_list (evaluation (dict_get scored_results x))))
                  (sorted_models_scored scored_results))) \<and>
   mset (sorted_models_scored scored_results) = mset (map fst scored_results)"
proof -
  have key: "score_key scored_results =
      (\<lambda>x. aggregated_speed (dict_get scored_results x) *
            of_int (sum_list (evaluation (dict_get scored_results x))))"
    by (simp add: score_key_def [abs_def] py_sum_sum_list)
  show ?thesis
    unfolding sorted_models_scored_def key
    by (simp add: py_sorted_reverse_descending py_sorted_reverse_mset)
qed

lemma sorted_models_plain_descending:
  "sorted (rev (map (\<lambda>x. aggregated_speed (dict_get plain_results x))
                  (sorted_models_plain plain_results))) \<and>
   mset (sorted_models_plain plain_results) = mset (map fst plain_results)"
  unfolding sorted_models_plain_def speed_key_def [abs_def]
  by (simp add: py_sorted_reverse_descending py_sorted_reverse_mset)

text \<open>
  A benchmark without an evaluator that reaches line 309 holds in \<open>sorted_models\<close> the
  providers in non-increasing order of aggregated speed; a benchmark yields a ranking
  without evaluation exactly when no evaluator was given.
\<close>

lemma ranking_without_evaluator:
  assumes "benchmark_ranking globals complete_call order orders default_prompts providers
             prompts evaluator = Inr (Unscored ranking plain_results)"
  shows "evaluator = None \<and>
         ranking = sorted_models_plain plain_results \<and>
         sorted (rev (map (\<lambda>x. aggregated_speed (dict_get plain_results x)) ranking)) \<and>
         mset ranking = mset (map fst plain_results)"
proof -
  from assms have "evaluator = None \<and> ranking = sorted_models_plain plain_results"
    by (auto simp: benchmark_ranking_def Let_def split: sum.splits option.splits)
  with sorted_models_plain_descending [of plain_results] show ?thesis by simp
qed

section \<open>Properties of the evaluation\<close>

text \<open>
  What the expressions of lines 225-226 and 294-296 compute from a list of tokens and
  from a list of scores, wherever those lists come from.
\<close>

lemma py_int_error: "py_int s = Inl e \<Longrightarrow> e = InvalidLiteral s"
  by (auto simp: py_int_def Let_def split: option.splits if_splits)

lemma parse_scores_first_error:
  assumes "find (\<lambda>t. isl (py_int (py_strip t))) scores = Some t"
  shows "parse_scores scores = Inl (InvalidLiteral (py_strip t))"
  using assms
proof (induction scores)
  case Nil
  then show ?case by simp
next
  case (Cons score rest)
  show ?case
  proof (cases "py_int (py_strip score)")
    case (Inl e)
    with Cons.prems have "t = score" by simp
    with Inl py_int_error [OF Inl] show ?thesis by simp
  next
    case (Inr n)
    with Cons.prems have "find (\<lambda>t. isl (py_int (py_strip t))) rest = Some t" by simp
    from Cons.IH [OF this] Inr show ?thesis by simp
  qed
qed

lemma parse_scores_all:
  assumes "find (\<lambda>t. isl (py_int (py_strip t))) scores = None"
  shows "parse_scores scores = Inr (map (\<lambda>t. projr (py_int (py_strip t))) scores)"
  using assms
proof (induction scores)
  case Nil
  then show ?case by simp
next
  case (Cons score rest)
  from Cons.prems have head: "\<not> isl (py_int (py_strip score))"
    and tail: "find (\<lambda>t. isl (py_int (py_strip t))) rest = None"
    by (auto split: if_splits)
  from head obtain n where n: "py_int (py_strip score) = Inr n"
    by (cases "py_int (py_strip score)") auto
  from Cons.IH [OF tail] n show ?case by simp
qed

lemma copy_evaluation_in_range:
  assumes "\<forall>i \<in> set indices. i < length scores"
  shows "copy_evaluation scores indices = Inr (map (\<lambda>i. scores ! i) indices)"
  using assms by (induction indices) (simp_all add: py_getitem_def)

lemma copy_evaluation_out_of_range:
  assumes "\<exists>i \<in> set indices. \<not> i < length scores"
  shows "copy_evaluation scores indices = Inl IndexError"
  using assms
proof (induction indices)
  case Nil
  then show ?case by simp
next
  case (Cons i rest)
  show ?case
  proof (cases "i < length scores")
    case True
    with Cons.prems have "\<exists>j \<in> set rest. \<not> j < length scores" by auto
    from Cons.IH [OF this] True show ?thesis by (simp add: py_getitem_def)
  next
    case False
    then show ?thesis by (simp add: py_getitem_def)
  qed
qed

lemma copy_evaluation_range:
  "copy_evaluation scores [0..<n] =
     (if n \<le> length scores then Inr (take n scores) else Inl IndexError)"
proof (cases "n \<le> length scores")
  case True
  then have "\<forall>i \<in> set [0..<n]. i < length scores" by auto
  from copy_evaluation_in_range [OF this]
  have "copy_evaluation scores [0..<n] = Inr (map (\<lambda>i. scores ! i) [0..<n])" .
  moreover have "map (\<lambda>i. scores ! i) [0..<n] = take n scores"
    using True by (simp add: list_eq_iff_nth_eq)
  ultimately show ?thesis using True by simp
next
  case False
  then have "\<exists>i \<in> set [0..<n]. \<not> i < length scores"
    by (auto intro: bexI [of _ "length scores"])
  from copy_evaluation_out_of_range [OF this] False show ?thesis by simp
qed

lemma query_answer_pairs_in_range:
  assumes "\<forall>d \<in> set outs. prompt_index d < length prompts"
  shows "query_answer_pairs prompts outs =
           Inr (map (\<lambda>d. (prompts ! prompt_index d, o_text d)) outs)"
  using assms by (induction outs) (simp_all add: py_getitem_def)

lemma evaluate_answers_ignores_evaluator:
  "evaluate_answers globals evaluator pairs = evaluate_answers globals evaluator' pairs'"
  by (simp add: evaluate_answers_def)

lemma build_prompt_example:
  "build_prompt 0 [(''q1'', ''a1''), (''q2'', ''a2'')] =
     ''Query #1: q1'' @ [CHR 0x0A] @ ''Answer #1: a1'' @ [CHR 0x0A, CHR 0x0A] @
     ''Query #2: q2'' @ [CHR 0x0A] @ ''Answer #2: a2'' @ [CHR 0x0A, CHR 0x0A]"
  by (simp add: py_str.simps char_of_def bit_0)

lemma parse_scores_example:
  "parse_scores (py_split (CHR '','') ''0, 1'') = Inr [0, 1]"
  by (simp add: py_int_def int_max_str_digits_def py_strip_def py_isspace_def py_isdigit_def
        digit_value_def)

text \<open>
  C1. \<open>evaluate_answers\<close> builds the combined prompt with the labels \<open>Query #k\<close> and
  \<open>Answer #k\<close> from 1, but it never calls the evaluator: the name \<open>evaluator_result\<close> that
  line 225 splits is bound nowhere, so the call raises \<open>NameError\<close> whatever the evaluator
  and the pairs are, and so does a benchmark with an evaluator and a provider. The
  run below has one provider, two prompts and an evaluator.
\<close>

theorem evaluate_answers_unbound_reply:
  "evaluate_answers llms_globals evaluator pairs = Inl (NameError ''evaluator_result'') \<and>
   benchmark_ranking llms_globals
     (\<lambda>p q. Inr \<lparr>resp_text = ''a'',
                 resp_meta = \<lparr>m_tokens = 10, m_cost = 0, m_latency = 1\<rparr>\<rparr>)
     [0] (\<lambda>p. [0, 1]) [''d''] [''A''] (Some [''q1'', ''q2'']) (Some ())
     = Inl (NameError ''evaluator_result'')"
proof -
  have general: "evaluate_answers llms_globals evaluator pairs
      = Inl (NameError ''evaluator_result'')"
    by (simp add: evaluate_answers_def llms_globals_def)
  have run: "benchmark_ranking llms_globals
     (\<lambda>p q. Inr \<lparr>resp_text = ''a'',
                 resp_meta = \<lparr>m_tokens = 10, m_cost = 0, m_latency = 1\<rparr>\<rparr>)
     [0] (\<lambda>p. [0, 1]) [''d''] [''A''] (Some [''q1'', ''q2'']) (Some ())
     = Inl (NameError ''evaluator_result'')"
    by (simp add: benchmark_ranking_def process_prompts_sequentially_def process_prompt_def
        as_completed_def enumerate_eq_zip model_totals_def aggregate_def statistics_median_unfold
        py_truediv_def py_sum_def Let_def evaluate_model_def evaluate_answers_def
        llms_globals_def py_getitem_def)
  from general run show ?thesis by simp
qed

subsection \<open>The evaluation in the module as it is written\<close>

lemma evaluate_answers_llms_globals:
  "evaluate_answers llms_globals evaluator pairs = Inl (NameError ''evaluator_result'')"
  by (simp add: evaluate_answers_def llms_globals_def)

lemma query_answer_pairs_error:
  assumes "query_answer_pairs prompts outs = Inl e"
  shows "e = IndexError"
  using assms
  by (induction outs) (auto simp: py_getitem_def split: if_splits sum.splits)

lemma evaluate_model_llms_globals:
  "evaluate_model llms_globals evaluator prompts model_data = Inl IndexError \<or>
   evaluate_model llms_globals evaluator prompts model_data
     = Inl (NameError ''evaluator_result'')"
proof (cases "query_answer_pairs prompts (outputs model_data)")
  case (Inl e)
  with query_answer_pairs_error [OF Inl] show ?thesis
    by (simp add: evaluate_model_def)
next
  case (Inr pairs)
  then show ?thesis
    by (simp add: evaluate_model_def evaluate_answers_llms_globals)
qed

lemma evaluate_model_llms_globals_in_range:
  assumes "\<forall>d \<in> set (outputs model_data). prompt_index d < length prompts"
  shows "evaluate_model llms_globals evaluator prompts model_data
           = Inl (NameError ''evaluator_result'')"
  by (simp add: evaluate_model_def query_answer_pairs_in_range [OF assms]
        evaluate_answers_llms_globals)

lemma for_each_model_evaluate_llms_globals:
  assumes "for_each_model (evaluate_model llms_globals evaluator prompts) model_results
             = Inr scored_results"
  shows "model_results = [] \<and> scored_results = []"
proof (cases model_results)
  case Nil
  with assms show ?thesis by simp
next
  case (Cons entry rest)
  obtain m r where entry: "entry = (m, r)" by (cases entry)
  from evaluate_model_llms_globals [of evaluator prompts r]
  obtain e where "evaluate_model llms_globals evaluator prompts r = Inl e" by auto
  with assms Cons entry show ?thesis by simp
qed

lemma scored_ranking_only_without_providers:
  assumes "benchmark_ranking llms_globals complete_call order orders default_prompts
             providers prompts (Some evaluator) = Inr (Scored ranking scored_results)"
  shows "ranking = [] \<and> scored_results = []"
proof -
  from assms obtain model_results prompts' where
    scored: "for_each_model (evaluate_model llms_globals evaluator prompts') model_results
               = Inr scored_results"
    and ranking: "ranking = sorted_models_scored scored_results"
    by (auto simp: benchmark_ranking_def Let_def split: sum.splits)
  from for_each_model_evaluate_llms_globals [OF scored] ranking show ?thesis
    by (simp add: sorted_models_scored_def py_sorted_reverse_def)
qed

text \<open>
  C2. A reply of the evaluator is never parsed, so no reply is ever refused for a
  token that is no integer or for a wrong number of scores. Whatever the evaluator,
  the evaluation of a provider raises \<open>NameError\<close> at line 225 (or \<open>IndexError\<close> before
  it, when an outcome's prompt index is out of range): neither is an error about the
  reply. The two runs below take two pairs and an evaluator that would answer
  \<open>1, x\<close>, with a token that is no integer, and one that would answer \<open>1, 2, 3\<close>, with
  one score too many; both raise \<open>NameError\<close>, as a well-formed reply does.
\<close>

theorem evaluation_step_never_parses:
  "(evaluate_model llms_globals evaluator prompts model_data = Inl IndexError \<or>
    evaluate_model llms_globals evaluator prompts model_data
      = Inl (NameError ''evaluator_result'')) \<and>
   evaluate_model llms_globals (\<lambda>prompt :: string. ''1, x'') [''q1'', ''q2'']
     \<lparr>outputs =
          [\<lparr>o_text = ''a1'', o_tokens = 10, o_latency = 1, o_cost = 0, prompt_index = 0\<rparr>,
           \<lparr>o_text = ''a2'', o_tokens = 20, o_latency = 1, o_cost = 0, prompt_index = 1\<rparr>],
        total_latency = 2, total_cost = 0, median_latency = 1, aggregated_speed = 15\<rparr>
     = Inl (NameError ''evaluator_result'') \<and>
   evaluate_model llms_globals (\<lambda>prompt :: string. ''1, 2, 3'') [''q1'', ''q2'']
     \<lparr>outputs =
          [\<lparr>o_text = ''a1'', o_tokens = 10, o_latency = 1, o_cost = 0, prompt_index = 0\<rparr>,
           \<lparr>o_text = ''a2'', o_tokens = 20, o_latency = 1, o_cost = 0, prompt_index = 1\<rparr>],
        total_latency = 2, total_cost = 0, median_latency = 1, aggregated_speed = 15\<rparr>
     = Inl (NameError ''evaluator_result'') \<and>
   evaluate_model llms_globals (\<lambda>prompt :: string. ''0, 1'') [''q1'', ''q2'']
     \<lparr>outputs =
          [\<lparr>o_text = ''a1'', o_tokens = 10, o_latency = 1, o_cost = 0, prompt_index = 0\<rparr>,
           \<lparr>o_text = ''a2'', o_tokens = 20, o_latency = 1, o_cost = 0, prompt_index = 1\<rparr>],
        total_latency = 2, total_cost = 0, median_latency = 1, aggregated_speed = 15\<rparr>
     = Inl (NameError ''evaluator_result'')"
proof -
  let ?r = "\<lparr>outputs =
          [\<lparr>o_text = ''a1'', o_tokens = 10, o_latency = 1, o_cost = 0, prompt_index = 0\<rparr>,
           \<lparr>o_text = ''a2'', o_tokens = 20, o_latency = 1, o_cost = 0, prompt_index = 1\<rparr>],
        total_latency = 2, total_cost = 0, median_latency = 1, aggregated_speed = 15\<rparr>"
  have range: "\<forall>d \<in> set (outputs ?r). prompt_index d < length [''q1'', ''q2'']"
    by simp
  note run = evaluate_model_llms_globals_in_range [OF range]
  from evaluate_model_llms_globals [of evaluator prompts model_data]
    run [of "\<lambda>prompt :: string. ''1, x''"]
    run [of "\<lambda>prompt :: string. ''1, 2, 3''"]
    run [of "\<lambda>prompt :: string. ''0, 1''"]
  show ?thesis by blast
qed

text \<open>
  C5. With an evaluator the sort of lines 298-303 is never reached once a provider is
  configured: the evaluation of the first provider raises at line 292, so no benchmark
  with an evaluator yields a ranking that holds a provider. The run below has two
  providers of speeds 5 and 9, one prompt and an evaluator; it raises \<open>NameError\<close> and
  ranks nothing.
\<close>

theorem benchmark_with_evaluator_never_ranks:
  "benchmark_ranking llms_globals complete_call order orders default_prompts providers
     prompts (Some evaluator) \<noteq> Inr (Scored (m # ranking) scored_results) \<and>
   benchmark_ranking llms_globals
     (\<lambda>p q. Inr \<lparr>resp_text = ''x'',
                 resp_meta = \<lparr>m_tokens = (if p = ''A'' then 10 else 9), m_cost = 0,
                              m_latency = (if p = ''A'' then 2 else 1)\<rparr>\<rparr>)
     [0, 1] (\<lambda>p. [0]) [''d''] [''A'', ''B''] (Some [''q''])
     (Some (\<lambda>prompt :: string. ''4, 2''))
     = Inl (NameError ''evaluator_result'')"
proof -
  have never: "benchmark_ranking llms_globals complete_call order orders default_prompts
      providers prompts (Some evaluator) \<noteq> Inr (Scored (m # ranking) scored_results)"
    using scored_ranking_only_without_providers
            [of complete_call order orders default_prompts providers prompts evaluator
                "m # ranking" scored_results]
    by auto
  have run: "benchmark_ranking llms_globals
     (\<lambda>p q. Inr \<lparr>resp_text = ''x'',
                 resp_meta = \<lparr>m_tokens = (if p = ''A'' then 10 else 9), m_cost = 0,
                              m_latency = (if p = ''A'' then 2 else 1)\<rparr>\<rparr>)
     [0, 1] (\<lambda>p. [0]) [''d''] [''A'', ''B''] (Some [''q''])
     (Some (\<lambda>prompt :: string. ''4, 2''))
     = Inl (NameError ''evaluator_result'')"
    by (simp add: benchmark_ranking_def process_prompts_sequentially_def process_prompt_def
        as_completed_def enumerate_eq_zip model_totals_def aggregate_def statistics_median_unfold
        py_truediv_def py_sum_def Let_def evaluate_model_def evaluate_answers_llms_globals
        py_getitem_def)
  from never run show ?thesis by simp
qed

end
